theory Spec2Isabelle
  imports Complex_Main
begin

section \<open>The literal tables of the dashboard\<close>

text \<open>
  The script \<open>app.py\<close> declares its data as pandas frames built from column literals.
  A frame is modelled as a record of its columns, in the order the source writes them.
  Python integers are \<open>int\<close>; the float literals of the source are modelled by the
  rational numbers their decimal notation denotes.
\<close>

definition TOTAL_OBSERVATIONS :: int where
  "TOTAL_OBSERVATIONS = 141"

record violation_frame =
  Violation_Type :: "string list"
  Count :: "int list"
  Percentage :: "rat list"

definition violation_data :: violation_frame where
  "violation_data = \<lparr>
     Violation_Type = [
       ''Audit Trail Failures'',
       ''Automatic Equipment Controls (211.68)'',
       ''Chromatography Data Systems'',
       ''Electronic Records'',
       ''Password & Login Issues'',
       ''Computerized Systems General'',
       ''Access Control Failures'',
       ''Software Validation'',
       ''Data Backup Deficiencies''],
     Count = [49, 40, 24, 24, 24, 22, 21, 19, 8],
     Percentage = [34.8, 28.4, 17.0, 17.0, 17.0, 15.6, 14.9, 13.5, 5.7] \<rparr>"



record facility_frame =
  Facility_Type :: "string list"
  Audit_Trail_Violations :: "int list"
  Other_CSV_Violations :: "int list"

definition facility_data :: facility_frame where
  "facility_data = \<lparr>
     Facility_Type = [''QC Laboratory'', ''API Manufacturing'', ''Sterile Manufacturing'',
       ''Finished Dosage'', ''Other''],
     Audit_Trail_Violations = [17, 11, 3, 6, 12],
     Other_CSV_Violations = [12, 15, 11, 9, 45] \<rparr>"

record growth_frame =
  Growth_Violation_Type :: "string list"
  Y2022 :: "int list"
  Y2024 :: "int list"
  Growth_Pct :: "int list"

definition growth_data :: growth_frame where
  "growth_data = \<lparr>
     Growth_Violation_Type = [''Audit Trail'', ''Password Security'', ''Electronic Records'',
       ''Equipment Controls''],
     Y2022 = [9, 7, 4, 7],
     Y2024 = [12, 3, 4, 7],
     Growth_Pct = [33, -57, 0, 0] \<rparr>"

record keyword_frame =
  Finding :: "string list"
  Pct_of_Observations :: "rat list"

definition keyword_data :: keyword_frame where
  "keyword_data = \<lparr>
     Finding = [''Delete capability'', ''Administrator access'', ''Shared credentials'',
       ''Not enabled'', ''Spreadsheet use'', ''Backup issues'', ''Manual workarounds''],
     Pct_of_Observations = [15.6, 9.9, 7.1, 6.4, 7.8, 5.7, 4.3] \<rparr>"

text \<open>\<open>len(frame)\<close> is the number of rows of the frame.\<close>

definition len_violation :: "violation_frame \<Rightarrow> nat" where
  "len_violation df = length (Count df)"

section \<open>The presentation encodings\<close>

subsection \<open>Category colours\<close>

text \<open>
  Violation chart:
  \<^verbatim>\<open>colors = ['#dc2626' if i == 0 else '#475569' for i in range(len(violation_data))]\<close>
\<close>

definition violation_colors :: "violation_frame \<Rightarrow> string list" where
  "violation_colors df =
     map (\<lambda>i. if i = 0 then ''#dc2626'' else ''#475569'') [0..<len_violation df]"

text \<open>
  Keyword chart:
  \<^verbatim>\<open>colors = ['#dc2626' if kw in ['Delete capability', 'Spreadsheet use', 'Administrator access']
            else '#64748b' for kw in keyword_data['Finding']]\<close>
\<close>

definition keyword_colors :: "keyword_frame \<Rightarrow> string list" where
  "keyword_colors df =
     map (\<lambda>kw. if kw \<in> set [''Delete capability'', ''Spreadsheet use'', ''Administrator access'']
               then ''#dc2626'' else ''#64748b'')
         (Finding df)"

subsection \<open>Colour and label of a signed delta\<close>

text \<open>
  Growth chart:
  \<^verbatim>\<open>colors = ['#dc2626' if g > 0 else '#059669' for g in growth_data['Growth_Pct']]\<close>
  The element expression is \<open>encodeSignedColor\<close>, the comprehension \<open>growth_colors\<close>.
\<close>

definition encodeSignedColor :: "int \<Rightarrow> string" where
  "encodeSignedColor g = (if g > 0 then ''#dc2626'' else ''#059669'')"

definition growth_colors :: "growth_frame \<Rightarrow> string list" where
  "growth_colors df = map encodeSignedColor (Growth_Pct df)"

text \<open>
  Bar labels of the growth chart:
  \<^verbatim>\<open>text=[f"<b>{g:+d}%</b>" for g in growth_data['Growth_Pct']]\<close>
  The format specification \<open>+d\<close> writes the sign of the integer, \<open>+\<close> also for zero,
  followed by the decimal digits of its absolute value. The label proper is the
  replacement field with the percent glyph; the chart text wraps it in bold markup.
\<close>

definition digit_char :: "nat \<Rightarrow> char" where
  "digit_char d = ''0123456789'' ! d"

fun dec_digits :: "nat \<Rightarrow> string" where
  "dec_digits n =
     (if n < 10 then [digit_char n] else dec_digits (n div 10) @ [digit_char (n mod 10)])"

declare dec_digits.simps [simp del]

definition format_plus_d :: "int \<Rightarrow> string" where
  "format_plus_d g = (if g < 0 then ''-'' else ''+'') @ dec_digits (nat \<bar>g\<bar>)"

definition formatSignedPercentLabel :: "int \<Rightarrow> string" where
  "formatSignedPercentLabel g = format_plus_d g @ ''%''"

definition growth_text :: "int \<Rightarrow> string" where
  "growth_text g = ''<b>'' @ formatSignedPercentLabel g @ ''</b>''"

text \<open>Reading a digit string back, to state that \<open>dec_digits\<close> is decimal notation.\<close>

definition digit_value :: "char \<Rightarrow> nat" where
  "digit_value c = of_char c - 48"

definition dec_value :: "string \<Rightarrow> nat" where
  "dec_value s = foldl (\<lambda>acc c. 10 * acc + digit_value c) 0 s"

subsection \<open>The sophistication ratio\<close>

text \<open>
  \<^verbatim>\<open>
  for _, row in sophistication_data.iterrows():
      ratio = row['Sophistication Ratio']
      if ratio > 1:
          color = '#059669'
          interpretation = "More complex than basic"
      else:
          color = '#dc2626'
          interpretation = "More basic than complex"
      st.markdown(f"""... {row['Region']} ... {color} ... {ratio:.2f} ... {interpretation} ...""")
  \<close>
  \<open>ratio_style\<close> is the conditional with its two assignments, \<open>interpretRatio\<close> names
  the arm that is taken.
\<close>

definition ratio_style :: "rat \<Rightarrow> string \<times> string" where
  "ratio_style ratio =
     (if ratio > 1 then (''#059669'', ''More complex than basic'')
      else (''#dc2626'', ''More basic than complex''))"

datatype ratio_side = ABOVE | BELOW

definition interpretRatio :: "rat \<Rightarrow> ratio_side" where
  "interpretRatio ratio = (if ratio > 1 then ABOVE else BELOW)"

text \<open>
  The source checks nothing before it uses a cell, so what happens on a cell of another
  kind is what Python does with it. A cell read from a frame is modelled as a Python
  value: an integer, a finite float, one of the floats \<open>nan\<close>, \<open>inf\<close>, \<open>-inf\<close> (pandas
  stores a missing number as \<open>nan\<close>), or a string. A row is the mapping from column
  names to cells that \<open>iterrows\<close> yields, and \<open>row[name]\<close> raises \<open>KeyError\<close> for a
  column that is not there.
\<close>

datatype pyval = PyInt int | PyFloat rat | PyNaN | PyPosInf | PyNegInf | PyStr string


type_synonym row = "string \<rightharpoonup> pyval"












subsection \<open>Ranking\<close>

text \<open>
  Modelled from the spec: \<open>rankRows\<close>. The source has no ranking function: it draws
  the rows in table order and highlights row 0. The definition follows the words of the
  specification, "ordered sequence of row-indices, descending by measure", "ties broken
  by original table order (stable sort)": the indices are sorted by insertion on the
  negated measure, which keeps equal measures in their original order.
\<close>

definition rankRows :: "int list \<Rightarrow> nat list" where
  "rankRows measure_col = sort_key (\<lambda>i. - (measure_col ! i)) [0..<length measure_col]"

section \<open>Facts about the tables and the helper functions\<close>

lemma violation_columns:
  "Count violation_data = [49, 40, 24, 24, 24, 22, 21, 19, 8]"
  "Percentage violation_data = [34.8, 28.4, 17.0, 17.0, 17.0, 15.6, 14.9, 13.5, 5.7]"
  by (simp_all add: violation_data_def)

lemma growth_columns:
  "Y2022 growth_data = [9, 7, 4, 7]"
  "Y2024 growth_data = [12, 3, 4, 7]"
  "Growth_Pct growth_data = [33, -57, 0, 0]"
  by (simp_all add: growth_data_def)

lemma violation_count_max: "Max (set (Count violation_data)) = 49"
  by (simp add: violation_columns)

lemma digit_value_digit_char: "d < 10 \<Longrightarrow> digit_value (digit_char d) = d"
proof -
  assume "d < 10"
  then have "d \<in> {0, 1, 2, 3, 4, 5, 6, 7, 8, 9}" by auto
  then show ?thesis
    by (auto simp: digit_value_def digit_char_def)
qed

lemma dec_value_snoc: "dec_value (s @ [c]) = 10 * dec_value s + digit_value c"
  by (simp add: dec_value_def)

lemma dec_value_dec_digits: "dec_value (dec_digits n) = n"
proof (induction n rule: dec_digits.induct)
  case (1 n)
  show ?case
  proof (cases "n < 10")
    case True
    then show ?thesis
      by (simp add: dec_digits.simps [of n] dec_value_def digit_value_digit_char)
  next
    case False
    with 1 have "dec_value (dec_digits (n div 10)) = n div 10" by simp
    with False show ?thesis
      by (simp add: dec_digits.simps [of n] dec_value_snoc digit_value_digit_char)
  qed
qed

lemma dec_digits_eval:
  "dec_digits 33 = ''33''" "dec_digits 57 = ''57''" "dec_digits 0 = ''0''"
  by (simp_all add: dec_digits.simps digit_char_def)

lemma format_plus_d_eval:
  "format_plus_d 33 = ''+33''" "format_plus_d (- 57) = ''-57''" "format_plus_d 0 = ''+0''"
  by (simp_all add: format_plus_d_def dec_digits_eval)










lemma ratio_style_cases:
  "1 < r \<Longrightarrow> ratio_style r = (''#059669'', ''More complex than basic'')"
  "\<not> 1 < r \<Longrightarrow> ratio_style r = (''#dc2626'', ''More basic than complex'')"
  by (simp_all add: ratio_style_def)

text \<open>
  The ranking modelled from the specification is a permutation of the row indices,
  descending in the measure, and stable.
\<close>

lemma rankRows_perm: "set (rankRows m) = {0..<length m} \<and> distinct (rankRows m)"
  by (simp add: rankRows_def)

lemma rankRows_descending:
  "i < j \<Longrightarrow> j < length (rankRows m) \<Longrightarrow> m ! (rankRows m ! j) \<le> m ! (rankRows m ! i)"
proof -
  assume ij: "i < j" "j < length (rankRows m)"
  have "sorted (map (\<lambda>i. - (m ! i)) (rankRows m))"
    unfolding rankRows_def by (rule sorted_sort_key)
  with ij have "map (\<lambda>i. - (m ! i)) (rankRows m) ! i \<le> map (\<lambda>i. - (m ! i)) (rankRows m) ! j"
    by (simp add: sorted_iff_nth_mono)
  with ij show ?thesis by simp
qed

lemma rankRows_stable:
  "filter (\<lambda>i. m ! i = k) (rankRows m) = filter (\<lambda>i. m ! i = k) [0..<length m]"
proof -
  have "filter (\<lambda>i. - (m ! i) = - k) (rankRows m) = filter (\<lambda>i. - (m ! i) = - k) [0..<length m]"
    unfolding rankRows_def by (rule sort_key_stable)
  then show ?thesis by simp
qed

lemma rankRows_violation: "rankRows (Count violation_data) = [0, 1, 2, 3, 4, 5, 6, 7, 8]"
  unfolding rankRows_def violation_columns by code_simp

lemma violation_colors_length: "length (violation_colors df) = len_violation df"
  by (simp add: violation_colors_def)

lemma violation_colors_nth: "\<forall>i < len_violation df.
         violation_colors df ! i = (if i = 0 then ''#dc2626'' else ''#475569'')
         \<and> ((violation_colors df ! i = ''#dc2626'') = (i = 0))"
  by (simp add: violation_colors_def)

lemma keyword_colors_length: "length (keyword_colors kf) = length (Finding kf)"
  by (simp add: keyword_colors_def)

lemma keyword_colors_nth: "\<forall>i < length (Finding kf).
         keyword_colors kf ! i =
           (if Finding kf ! i \<in> {''Delete capability'', ''Spreadsheet use'', ''Administrator access''}
            then ''#dc2626'' else ''#64748b'')
         \<and> ((keyword_colors kf ! i = ''#dc2626'') =
              (Finding kf ! i \<in> {''Delete capability'', ''Spreadsheet use'', ''Administrator access''}))"
  by (simp add: keyword_colors_def)

lemma violation_first_is_largest: "Count violation_data ! 0 = Max (set (Count violation_data))"
  by (simp add: violation_columns)

lemma violation_row_indices: "[0..<len_violation violation_data] = [0, 1, 2, 3, 4, 5, 6, 7, 8]"
  unfolding len_violation_def violation_columns by code_simp

lemma violation_colors_table: "violation_colors violation_data =
       [''#dc2626'', ''#475569'', ''#475569'', ''#475569'', ''#475569'', ''#475569'',
        ''#475569'', ''#475569'', ''#475569'']"
  by (simp add: violation_colors_def violation_row_indices)

lemma keyword_colors_table: "keyword_colors keyword_data =
       [''#dc2626'', ''#dc2626'', ''#64748b'', ''#64748b'', ''#dc2626'', ''#64748b'', ''#64748b'']"
  by (simp add: keyword_colors_def keyword_data_def)

section \<open>The claims\<close>

text \<open>
  Claim C10. The facility table agrees with the taxonomy table and with the declared
  total: its audit trail column sums to 49, the count of the first taxonomy row, its
  other column sums to 92, and both together give \<open>TOTAL_OBSERVATIONS = 141\<close>.
\<close>

theorem facility_totals_consistent:
  "sum_list (Audit_Trail_Violations facility_data) = 49
   \<and> sum_list (Audit_Trail_Violations facility_data) = Count violation_data ! 0
   \<and> sum_list (Other_CSV_Violations facility_data) = 92
   \<and> sum_list (Audit_Trail_Violations facility_data)
       + sum_list (Other_CSV_Violations facility_data) = TOTAL_OBSERVATIONS
   \<and> TOTAL_OBSERVATIONS = 141"
  by (simp add: facility_data_def violation_data_def TOTAL_OBSERVATIONS_def)

text \<open>
  Claim C4. Every row of the violation taxonomy table has a percentage that differs
  from \<open>count / 141 * 100\<close> by at most 0.05. The two columns have nine entries each,
  so the pairs of the zip are all the rows.
\<close>

theorem violation_percentage_tolerance:
  "length (Count violation_data) = 9 \<and> length (Percentage violation_data) = 9
   \<and> (\<forall>(c, p) \<in> set (zip (Count violation_data) (Percentage violation_data)).
         \<bar>p - of_int c / of_int TOTAL_OBSERVATIONS * 100\<bar> \<le> 0.05)"
  by (simp add: violation_columns TOTAL_OBSERVATIONS_def)

theorem violation_percentage_tolerance_witness:
  "(49, 34.8) \<in> set (zip (Count violation_data) (Percentage violation_data))
   \<and> \<bar>(34.8 :: rat) - of_int 49 / of_int TOTAL_OBSERVATIONS * 100\<bar> \<le> 0.05"
proof -
  have row: "(49, 34.8) \<in> set (zip (Count violation_data) (Percentage violation_data))"
    by (simp add: violation_columns)
  from violation_percentage_tolerance
  have "\<forall>(c, p) \<in> set (zip (Count violation_data) (Percentage violation_data)).
         \<bar>p - of_int c / of_int TOTAL_OBSERVATIONS * 100\<bar> \<le> 0.05"
    by blast
  with row have "\<bar>(34.8 :: rat) - of_int 49 / of_int TOTAL_OBSERVATIONS * 100\<bar> \<le> 0.05"
    by blast
  with row show ?thesis by blast
qed

text \<open>
  Claim C1. \<open>encodeSignedColor\<close> maps a signed delta to exactly one of two fixed colours.
  As the code has it, the test is the strict comparison \<open>g > 0\<close>: a positive delta gets
  \<open>#dc2626\<close>, and zero is grouped with the negative deltas, so that
  \<open>encodeSignedColor 0\<close> is the colour of \<open>encodeSignedColor (-1)\<close>, \<open>#059669\<close>.
  On the growth table the colours are one red for +33 and green for -57, 0 and 0.
\<close>

theorem encodeSignedColor_two_colors:
  "encodeSignedColor g \<in> {''#dc2626'', ''#059669''}
   \<and> (0 < g \<longrightarrow> encodeSignedColor g = ''#dc2626'')
   \<and> (g \<le> 0 \<longrightarrow> encodeSignedColor g = ''#059669'')
   \<and> encodeSignedColor 0 = encodeSignedColor (- 1)
   \<and> growth_colors growth_data = [''#dc2626'', ''#059669'', ''#059669'', ''#059669'']"
  by (simp add: encodeSignedColor_def growth_colors_def growth_columns)

theorem encodeSignedColor_two_colors_witness:
  "(0 :: int) < 1 \<and> encodeSignedColor 1 = ''#dc2626''
   \<and> (0 :: int) \<le> 0 \<and> encodeSignedColor 0 = ''#059669''"
  using encodeSignedColor_two_colors [of 1] encodeSignedColor_two_colors [of 0]
  by simp

text \<open>
  The statement of C1 as written, that zero gets the colour of a positive delta, fails:
  the colours of 0 and of +1 differ.
\<close>

theorem encodeSignedColor_zero_differs_from_positive:
  "encodeSignedColor 0 \<noteq> encodeSignedColor 1"
  by (simp add: encodeSignedColor_def)

text \<open>
  Claim C2. \<open>formatSignedPercentLabel\<close> renders an integer delta with an explicit
  leading sign and a trailing percent glyph, for every integer: a plus sign for a value
  that is not negative, a minus sign for a negative one, then the decimal digits of the
  absolute value (reading them back gives that value), then \<open>%\<close>. In particular
  33 gives \<open>+33%\<close>, -57 gives \<open>-57%\<close> and 0 gives \<open>+0%\<close>. The text handed to the chart is
  this label between the bold tags \<open><b>\<close> and \<open></b>\<close>.
\<close>

theorem formatSignedPercentLabel_sign_and_percent:
  "(0 \<le> g \<longrightarrow> formatSignedPercentLabel g = ''+'' @ dec_digits (nat \<bar>g\<bar>) @ ''%'')
   \<and> (g < 0 \<longrightarrow> formatSignedPercentLabel g = ''-'' @ dec_digits (nat \<bar>g\<bar>) @ ''%'')
   \<and> dec_value (dec_digits (nat \<bar>g\<bar>)) = nat \<bar>g\<bar>
   \<and> growth_text g = ''<b>'' @ formatSignedPercentLabel g @ ''</b>''
   \<and> formatSignedPercentLabel 33 = ''+33%''
   \<and> formatSignedPercentLabel (- 57) = ''-57%''
   \<and> formatSignedPercentLabel 0 = ''+0%''
   \<and> map growth_text (Growth_Pct growth_data)
       = [''<b>+33%</b>'', ''<b>-57%</b>'', ''<b>+0%</b>'', ''<b>+0%</b>'']"
proof -
  have sign: "(0 \<le> g \<longrightarrow> formatSignedPercentLabel g = ''+'' @ dec_digits (nat \<bar>g\<bar>) @ ''%'')
      \<and> (g < 0 \<longrightarrow> formatSignedPercentLabel g = ''-'' @ dec_digits (nat \<bar>g\<bar>) @ ''%'')"
    by (simp add: formatSignedPercentLabel_def format_plus_d_def)
  have digits: "dec_value (dec_digits (nat \<bar>g\<bar>)) = nat \<bar>g\<bar>"
    by (rule dec_value_dec_digits)
  have markup: "growth_text g = ''<b>'' @ formatSignedPercentLabel g @ ''</b>''"
    by (simp add: growth_text_def)
  have examples: "formatSignedPercentLabel 33 = ''+33%''"
    "formatSignedPercentLabel (- 57) = ''-57%''"
    "formatSignedPercentLabel 0 = ''+0%''"
    by (simp_all add: formatSignedPercentLabel_def format_plus_d_eval)
  have table: "map growth_text (Growth_Pct growth_data)
       = [''<b>+33%</b>'', ''<b>-57%</b>'', ''<b>+0%</b>'', ''<b>+0%</b>'']"
    by (simp add: growth_columns growth_text_def examples)
  from sign digits markup examples table show ?thesis by blast
qed

theorem formatSignedPercentLabel_sign_and_percent_witness:
  "(0 :: int) \<le> 33 \<and> formatSignedPercentLabel 33 = ''+'' @ dec_digits 33 @ ''%''
   \<and> (- 57 :: int) < 0 \<and> formatSignedPercentLabel (- 57) = ''-'' @ dec_digits 57 @ ''%''"
  using formatSignedPercentLabel_sign_and_percent [of 33]
    formatSignedPercentLabel_sign_and_percent [of "- 57"]
  by simp

text \<open>
  Claim C3. \<open>interpretRatio\<close> compares the ratio with 1 and nothing else, and the
  comparison fixes both the label and the colour: every ratio above 1 takes the ABOVE
  arm, with the label \<open>More complex than basic\<close> and the colour \<open>#059669\<close>; every
  ratio below 1 takes the BELOW arm, with the label \<open>More basic than complex\<close> and the
  other colour, \<open>#dc2626\<close>. In particular 1.08 is ABOVE and 0.67 is BELOW.
\<close>

theorem interpretRatio_above_below:
  "(1 < r \<longrightarrow> interpretRatio r = ABOVE
        \<and> ratio_style r = (''#059669'', ''More complex than basic''))
   \<and> (r < 1 \<longrightarrow> interpretRatio r = BELOW
        \<and> ratio_style r = (''#dc2626'', ''More basic than complex''))
   \<and> interpretRatio 1.08 = ABOVE
   \<and> interpretRatio 0.67 = BELOW
   \<and> ''#059669'' \<noteq> ''#dc2626''"
  by (simp add: interpretRatio_def ratio_style_def)

theorem interpretRatio_above_below_witness:
  "(1 :: rat) < 1.08 \<and> interpretRatio 1.08 = ABOVE
   \<and> ratio_style 1.08 = (''#059669'', ''More complex than basic'')
   \<and> (0.67 :: rat) < 1 \<and> interpretRatio 0.67 = BELOW
   \<and> ratio_style 0.67 = (''#dc2626'', ''More basic than complex'')"
  using interpretRatio_above_below [of "1.08"] interpretRatio_above_below [of "0.67"]
  by simp

text \<open>
  Claim C9. A ratio equal to 1 takes the else arm, because the test is the strict
  comparison \<open>ratio > 1\<close>: it gets the colour \<open>#dc2626\<close> and the label
  \<open>More basic than complex\<close>, the same as every ratio below 1. A ratio gets that style
  exactly when it is not above 1.
\<close>

theorem ratio_equal_one_is_below:
  "ratio_style 1 = (''#dc2626'', ''More basic than complex'')
   \<and> interpretRatio 1 = BELOW
   \<and> (r < 1 \<longrightarrow> ratio_style r = ratio_style 1 \<and> interpretRatio r = interpretRatio 1)
   \<and> ((ratio_style r = ratio_style 1) = (\<not> r > 1))"
  by (simp add: interpretRatio_def ratio_style_def)

theorem ratio_equal_one_is_below_witness:
  "(0.67 :: rat) < 1 \<and> ratio_style 0.67 = ratio_style 1
   \<and> interpretRatio 0.67 = interpretRatio 1"
  using ratio_equal_one_is_below [of "0.67"]
  by simp

text \<open>
  Claim C5. The category colours are one per row and aligned by row index, for any
  table: in the violation chart row 0 and no other row gets the emphasis colour
  \<open>#dc2626\<close>, every other row the neutral \<open>#475569\<close>; in the keyword chart exactly
  the rows whose label is Delete capability, Spreadsheet use or Administrator access get
  \<open>#dc2626\<close>, every other row the neutral \<open>#64748b\<close>. Row 0 of the violation table
  holds the largest count. The functions only read the table and return the colours in
  row order.
\<close>

theorem encodeCategoryColor_aligned:
  "length (violation_colors df) = len_violation df
   \<and> (\<forall>i < len_violation df.
         violation_colors df ! i = (if i = 0 then ''#dc2626'' else ''#475569'')
         \<and> ((violation_colors df ! i = ''#dc2626'') = (i = 0)))
   \<and> length (keyword_colors kf) = length (Finding kf)
   \<and> (\<forall>i < length (Finding kf).
         keyword_colors kf ! i =
           (if Finding kf ! i \<in> {''Delete capability'', ''Spreadsheet use'', ''Administrator access''}
            then ''#dc2626'' else ''#64748b'')
         \<and> ((keyword_colors kf ! i = ''#dc2626'') =
              (Finding kf ! i \<in> {''Delete capability'', ''Spreadsheet use'', ''Administrator access''})))
   \<and> Count violation_data ! 0 = Max (set (Count violation_data))
   \<and> violation_colors violation_data =
       [''#dc2626'', ''#475569'', ''#475569'', ''#475569'', ''#475569'', ''#475569'',
        ''#475569'', ''#475569'', ''#475569'']
   \<and> keyword_colors keyword_data =
       [''#dc2626'', ''#dc2626'', ''#64748b'', ''#64748b'', ''#dc2626'', ''#64748b'', ''#64748b'']"
  by (rule conjI [OF violation_colors_length conjI [OF violation_colors_nth conjI [OF keyword_colors_length conjI [OF keyword_colors_nth
        conjI [OF violation_first_is_largest conjI [OF violation_colors_table keyword_colors_table]]]]]])

theorem encodeCategoryColor_aligned_witness:
  "(0 :: nat) < len_violation violation_data
   \<and> violation_colors violation_data ! 0 = ''#dc2626''
   \<and> (4 :: nat) < length (Finding keyword_data)
   \<and> keyword_colors keyword_data ! 4 = ''#dc2626''"
proof -
  note all = encodeCategoryColor_aligned [of violation_data keyword_data]
  have v: "(0 :: nat) < len_violation violation_data"
    by (simp add: len_violation_def violation_columns)
  have k: "(4 :: nat) < length (Finding keyword_data)"
    by (simp add: keyword_data_def)
  have f: "Finding keyword_data ! 4 = ''Spreadsheet use''"
    by (simp add: keyword_data_def)
  have vc: "violation_colors violation_data ! 0 = ''#dc2626''"
    using mp [OF spec [OF conjunct1 [OF conjunct2 [OF all]]] v] by simp
  have kc: "keyword_colors keyword_data ! 4 = ''#dc2626''"
    using mp [OF spec [OF conjunct1 [OF conjunct2 [OF conjunct2 [OF conjunct2 [OF all]]]]] k]
    by (simp add: f)
  from v vc k kc show ?thesis by blast
qed

text \<open>
  Claim C6. On the violation table, whose counts are 49, 40, 24, 24, 24, 22, 21, 19, 8,
  ranking the rows descending by Count returns index 0 first, the row of the maximum 49,
  and the three rows with count 24 come in their original order 2, 3, 4. The table is
  written in descending order, so the ranking is the table order that the source draws.
\<close>

theorem rankRows_violation_table:
  "rankRows (Count violation_data) = [0, 1, 2, 3, 4, 5, 6, 7, 8]
   \<and> hd (rankRows (Count violation_data)) = 0
   \<and> Count violation_data ! 0 = 49
   \<and> Max (set (Count violation_data)) = 49
   \<and> filter (\<lambda>i. Count violation_data ! i = 24) (rankRows (Count violation_data)) = [2, 3, 4]"
proof -
  have ranked: "rankRows (Count violation_data) = [0, 1, 2, 3, 4, 5, 6, 7, 8]"
    by (rule rankRows_violation)
  have first: "Count violation_data ! 0 = 49"
    by (simp add: violation_columns)
  have ties: "filter (\<lambda>i. Count violation_data ! i = 24) [0, 1, 2, 3, 4, 5, 6, 7, 8] = [2, 3, 4]"
    by (simp add: violation_columns)
  have head: "hd (rankRows (Count violation_data)) = 0"
    by (simp add: ranked)
  have ties': "filter (\<lambda>i. Count violation_data ! i = 24) (rankRows (Count violation_data)) = [2, 3, 4]"
    by (simp only: ranked ties)
  from ranked head first violation_count_max ties' show ?thesis by blast
qed

text \<open>
  Claim C7. Every row of the growth table stores the growth percentage as an integer,
  the value of (year-B count - year-A count) / year-A count * 100 rounded to the
  nearest integer: the stored value differs from the quotient by less than one half.
  The rows (9, 12), (7, 3), (4, 4), (7, 7) store 33, -57, 0, 0.
\<close>

theorem growth_pct_is_rounded_quotient:
  "zip (Y2022 growth_data) (zip (Y2024 growth_data) (Growth_Pct growth_data))
     = [(9, 12, 33), (7, 3, - 57), (4, 4, 0), (7, 7, 0)]
   \<and> (\<forall>(a, b, g) \<in> set (zip (Y2022 growth_data) (zip (Y2024 growth_data) (Growth_Pct growth_data))).
         \<bar>of_int g - of_int (b - a) / of_int a * (100 :: rat)\<bar> < 1 / 2)"
  by (simp add: growth_columns)

theorem growth_pct_is_rounded_quotient_witness:
  "(9, 12, 33) \<in> set (zip (Y2022 growth_data) (zip (Y2024 growth_data) (Growth_Pct growth_data)))
   \<and> \<bar>of_int 33 - of_int (12 - 9) / of_int 9 * (100 :: rat)\<bar> < 1 / 2"
proof -
  have row: "(9, 12, 33) \<in> set (zip (Y2022 growth_data) (zip (Y2024 growth_data) (Growth_Pct growth_data)))"
    by (simp add: growth_columns)
  have bound: "\<bar>of_int 33 - of_int (12 - 9) / of_int 9 * (100 :: rat)\<bar> < 1 / 2"
    using bspec [OF conjunct2 [OF growth_pct_is_rounded_quotient] row] by simp
  from row bound show ?thesis by (rule conjI)
qed

text \<open>
  The statement of C7 as written, that the stored value equals the quotient, fails on
  the first row: 33 is not (12 - 9) / 9 * 100.
\<close>

theorem growth_pct_first_row_not_exact:
  "of_int (Growth_Pct growth_data ! 0)
     \<noteq> of_int (Y2024 growth_data ! 0 - Y2022 growth_data ! 0)
         / of_int (Y2022 growth_data ! 0) * (100 :: rat)"
  by (simp add: growth_columns)




end
